theory Spec2Isabelle
  imports Main "HOL-Library.Multiset"
begin

section \<open>Data model\<close>

text \<open>
  The script \<^verbatim>\<open>find.py\<close> loads a JSON array of objects into a pandas frame, counts
  the values of the column \<^verbatim>\<open>EMP ID\<close>, keeps the counts above one and prints them.

  A cell of the frame is either null (JSON \<^verbatim>\<open>null\<close>, or the NaN that pandas puts where
  a record has no such key) or a value. The type of the values is a parameter: it stands
  for the values as the frame holds them, compared with the equality the counting uses.
  A record of the file maps each of its keys to a cell; a key the record does not have
  is \<open>None\<close>.
\<close>

type_synonym 'a cell = "'a option"

type_synonym 'a row = "string \<rightharpoonup> 'a cell"

text \<open>
  What is stored under a path: text that is not JSON (an empty file too), or an array of
  records. A path with no file is absent from the map \<open>files\<close> below.
\<close>

datatype 'a json_file = Malformed | Records "'a row list"

text \<open>The exceptions of the run.\<close>

datatype error = FileNotFoundError | ValueError | KeyError string

text \<open>
  The frame built in step 5: its column names and its rows, an identifier and its count.
\<close>

record 'a table =
  columns :: "string list"
  rows :: "('a \<times> nat) list"

text \<open>
  What \<^verbatim>\<open>print\<close> writes: a line of text, or the frame handed to
  \<^verbatim>\<open>to_markdown(index=False)\<close>. The rendering itself is the work of the tabulate
  package, taken to be installed; the model keeps the frame that is rendered.
\<close>

datatype 'a out = Line string | Markdown "'a table"

text \<open>The state around the run: the files by path, and what was printed so far.\<close>

record 'a world =
  files :: "string \<rightharpoonup> 'a json_file"
  stdout :: "'a out list"

section \<open>The library operations the script calls\<close>

text \<open>
  The operations below belong to pandas, not to the script; they are modelled from what
  the library documents, on the inputs the script gives them.

  \<^verbatim>\<open>pd.read_json(file_name)\<close>: FileNotFoundError when the path has no file (what pandas
  raises for a missing path that ends in \<^verbatim>\<open>.json\<close>, as the module's does), ValueError when
  the text is not JSON, the records otherwise. It only reads.
\<close>

definition read_json :: "'a world \<Rightarrow> string \<Rightarrow> error + 'a row list" where
  "read_json w file_name =
     (case files w file_name of
        None \<Rightarrow> Inl FileNotFoundError
      | Some Malformed \<Rightarrow> Inl ValueError
      | Some (Records df) \<Rightarrow> Inr df)"

text \<open>
  \<^verbatim>\<open>df[name]\<close>: the frame has a column for every key that some record has, with null
  where a record lacks the key; a name that no record has is a KeyError.
\<close>

definition getitem :: "'a row list \<Rightarrow> string \<Rightarrow> error + 'a cell list" where
  "getitem df name =
     (if list_ex (\<lambda>r. r name \<noteq> None) df
      then Inr (map (\<lambda>r. case r name of None \<Rightarrow> None | Some c \<Rightarrow> c) df)
      else Inl (KeyError name))"

text \<open>\<^verbatim>\<open>value_counts\<close> drops the null cells first (\<^verbatim>\<open>dropna=True\<close>).\<close>

fun dropna :: "'a cell list \<Rightarrow> 'a list" where
  "dropna [] = []"
| "dropna (None # cs) = dropna cs"
| "dropna (Some v # cs) = v # dropna cs"

text \<open>
  The counting table: a value seen for the first time is appended with count one, a value
  seen before has its count raised, so the keys stay in the order of first appearance.
\<close>

fun incr :: "'a \<Rightarrow> ('a \<times> nat) list \<Rightarrow> ('a \<times> nat) list" where
  "incr x [] = [(x, 1)]"
| "incr x ((y, c) # t) = (if x = y then (y, c + 1) # t else (y, c) # incr x t)"

definition count_keys :: "'a list \<Rightarrow> ('a \<times> nat) list" where
  "count_keys xs = foldl (\<lambda>t x. incr x t) [] xs"

text \<open>
  \<^verbatim>\<open>sort_values(ascending=False)\<close> on the counts. Entries of equal count are kept here in
  the order of the counting table; pandas promises no order among them, and no theorem
  below depends on it.
\<close>

definition sort_values :: "('a \<times> nat) list \<Rightarrow> ('a \<times> nat) list" where
  "sort_values t = sort_key (\<lambda>p. - int (snd p)) t"

definition value_counts :: "'a cell list \<Rightarrow> ('a \<times> nat) list" where
  "value_counts col = sort_values (count_keys (dropna col))"

text \<open>\<^verbatim>\<open>str\<close> of a natural number, for the f-string of the header.\<close>

fun str :: "nat \<Rightarrow> string" where
  "str n = (if n < 10 then [''0123456789'' ! n]
            else str (n div 10) @ [''0123456789'' ! (n mod 10)])"

declare str.simps [simp del]

definition print :: "'a out \<Rightarrow> 'a world \<Rightarrow> 'a world" where
  "print x w = w\<lparr>stdout := stdout w @ [x]\<rparr>"

section \<open>The script\<close>

text \<open>
  \<^verbatim>\<open>find_duplicate_emp_ids(file_name)\<close>. The result is the state after the run and how
  the run ended: \<open>Inr ()\<close> for a normal return, \<open>Inl e\<close> for an exception that nothing
  catches. Only FileNotFoundError is caught.
\<close>

definition not_found_msg :: "string \<Rightarrow> string" where
  "not_found_msg file_name = ''Error: File '' @ [CHR 0x27] @ file_name @ [CHR 0x27] @ '' not found.''"

definition no_duplicates_msg :: string where
  "no_duplicates_msg = ''No EMP IDs were found with more than one entry in the data.''"

definition header_msg :: "nat \<Rightarrow> string" where
  "header_msg n = ''--- EMP IDs with more than 1 entry ('' @ str n @ '' IDs found) ---''"

definition find_duplicate_emp_ids :: "'a world \<Rightarrow> string \<Rightarrow> 'a world \<times> (error + unit)" where
  "find_duplicate_emp_ids w file_name =
     (case read_json w file_name of
        Inl e \<Rightarrow>
          (case e of
             FileNotFoundError \<Rightarrow> (print (Line (not_found_msg file_name)) w, Inr ())
           | _ \<Rightarrow> (w, Inl e))
      | Inr df \<Rightarrow>
          (case getitem df ''EMP ID'' of
             Inl e \<Rightarrow> (w, Inl e)
           | Inr col \<Rightarrow>
               (let id_counts = value_counts col;
                    duplicate_ids = filter (\<lambda>p. 1 < snd p) id_counts
                in if duplicate_ids = []
                   then (print (Line no_duplicates_msg) w, Inr ())
                   else
                     (let w1 = print (Line (header_msg (length duplicate_ids))) w;
                          df_duplicates = \<lparr>columns = [''EMP ID'', ''Count of Entries''],
                                           rows = duplicate_ids\<rparr>
                      in (print (Markdown df_duplicates) w1, Inr ())))))"

text \<open>The module calls the function once, on a fixed name.\<close>

definition main :: "'a world \<Rightarrow> 'a world \<times> (error + unit)" where
  "main w = find_duplicate_emp_ids w ''membercsvjson.json''"

section \<open>The vocabulary of the claims\<close>

text \<open>
  The number of records that carry the value \<open>v\<close> under \<^verbatim>\<open>EMP ID\<close>. A record without
  the key, or with null under it, carries no value.
\<close>

definition occurrences :: "'a row list \<Rightarrow> 'a \<Rightarrow> nat" where
  "occurrences df v = length (filter (\<lambda>r. r ''EMP ID'' = Some (Some v)) df)"

text \<open>
  The example of the specification: three records, \<^verbatim>\<open>A\<close>, \<^verbatim>\<open>A\<close> and \<^verbatim>\<open>B\<close>, stored under
  the name the module uses.
\<close>

definition example_records :: "string row list" where
  "example_records =
     [[''EMP ID'' \<mapsto> Some ''A''], [''EMP ID'' \<mapsto> Some ''A''], [''EMP ID'' \<mapsto> Some ''B'']]"

definition example_world :: "string world" where
  "example_world = \<lparr>files = [''membercsvjson.json'' \<mapsto> Records example_records], stdout = []\<rparr>"

text \<open>
  The second example of the specification: two records with different identifiers.
\<close>

definition unique_records :: "string row list" where
  "unique_records = [[''EMP ID'' \<mapsto> Some ''A''], [''EMP ID'' \<mapsto> Some ''B'']]"

definition unique_world :: "string world" where
  "unique_world = \<lparr>files = [''membercsvjson.json'' \<mapsto> Records unique_records], stdout = []\<rparr>"

text \<open>A record whose \<^verbatim>\<open>EMP ID\<close> is null, after one with an identifier.\<close>

definition null_records :: "string row list" where
  "null_records = [[''EMP ID'' \<mapsto> Some ''A''], [''EMP ID'' \<mapsto> None]]"

text \<open>A record without the key \<^verbatim>\<open>EMP ID\<close>, after one with an identifier.\<close>

definition partial_records :: "string row list" where
  "partial_records = [[''EMP ID'' \<mapsto> Some ''A''], [''NAME'' \<mapsto> Some ''Bob'']]"

definition partial_world :: "string world" where
  "partial_world = \<lparr>files = [''membercsvjson.json'' \<mapsto> Records partial_records], stdout = []\<rparr>"

text \<open>Two identifiers with more than one record each; the one seen first has fewer.\<close>

definition ranked_records :: "string row list" where
  "ranked_records =
     [[''EMP ID'' \<mapsto> Some ''B''], [''EMP ID'' \<mapsto> Some ''A''], [''EMP ID'' \<mapsto> Some ''A''],
      [''EMP ID'' \<mapsto> Some ''B''], [''EMP ID'' \<mapsto> Some ''A'']]"

definition ranked_world :: "string world" where
  "ranked_world = \<lparr>files = [''membercsvjson.json'' \<mapsto> Records ranked_records], stdout = []\<rparr>"

text \<open>The file holds the empty array; the file is not JSON; there is no file.\<close>

definition empty_world :: "string world" where
  "empty_world = \<lparr>files = [''membercsvjson.json'' \<mapsto> Records []], stdout = []\<rparr>"

definition malformed_world :: "string world" where
  "malformed_world = \<lparr>files = [''membercsvjson.json'' \<mapsto> Malformed], stdout = []\<rparr>"

definition missing_world :: "string world" where
  "missing_world = \<lparr>files = Map.empty, stdout = []\<rparr>"

section \<open>The counting table\<close>

lemma dropna_filter: "dropna col = map the (filter (\<lambda>c. c \<noteq> None) col)"
  by (induction col rule: dropna.induct) auto

lemma count_dropna: "count_list (dropna col) v = count_list col (Some v)"
  by (induction col rule: dropna.induct) auto

lemma length_dropna: "length (dropna col) = length (filter (\<lambda>c. c \<noteq> None) col)"
  by (induction col rule: dropna.induct) auto

lemma map_of_incr:
  "map_of (incr x t) y =
     (if y = x then Some (case map_of t x of None \<Rightarrow> 1 | Some c \<Rightarrow> c + 1) else map_of t y)"
  by (induction x t rule: incr.induct) auto

lemma keys_incr: "fst ` set (incr x t) = insert x (fst ` set t)"
  by (induction x t rule: incr.induct) auto

lemma distinct_incr: "distinct (map fst t) \<Longrightarrow> distinct (map fst (incr x t))"
  by (induction x t rule: incr.induct) (auto simp: keys_incr)

lemma sum_incr: "sum_list (map snd (incr x t)) = Suc (sum_list (map snd t))"
  by (induction x t rule: incr.induct) auto

lemma map_of_foldl_incr:
  "map_of (foldl (\<lambda>t x. incr x t) t xs) y =
     (case map_of t y of
        None \<Rightarrow> if count_list xs y = 0 then None else Some (count_list xs y)
      | Some c \<Rightarrow> Some (c + count_list xs y))"
  by (induction xs arbitrary: t) (auto simp: map_of_incr split: option.splits)

lemma distinct_foldl_incr:
  "distinct (map fst t) \<Longrightarrow> distinct (map fst (foldl (\<lambda>t x. incr x t) t xs))"
  by (induction xs arbitrary: t) (auto simp: distinct_incr)

lemma sum_foldl_incr:
  "sum_list (map snd (foldl (\<lambda>t x. incr x t) t xs)) = sum_list (map snd t) + length xs"
  by (induction xs arbitrary: t) (auto simp: sum_incr)

lemma distinct_count_keys: "distinct (map fst (count_keys xs))"
  by (simp add: count_keys_def distinct_foldl_incr)

lemma map_of_count_keys:
  "map_of (count_keys xs) y = (if count_list xs y = 0 then None else Some (count_list xs y))"
  by (simp add: count_keys_def map_of_foldl_incr)

lemma in_count_keys: "(y, c) \<in> set (count_keys xs) \<longleftrightarrow> 0 < c \<and> c = count_list xs y"
  using map_of_eq_Some_iff [OF distinct_count_keys, of xs y c]
  by (auto simp: map_of_count_keys split: if_splits)

lemma sum_count_keys: "sum_list (map snd (count_keys xs)) = length xs"
  by (simp add: count_keys_def sum_foldl_incr)

lemma set_sort_values: "set (sort_values t) = set t"
  by (simp add: sort_values_def)

lemma mset_sort_values: "mset (sort_values t) = mset t"
  by (simp add: sort_values_def)

lemma distinct_sort_values: "distinct (map fst (sort_values t)) = distinct (map fst t)"
proof -
  have "mset (map fst (sort_values t)) = mset (map fst t)"
    by (simp add: mset_sort_values)
  then show ?thesis by (metis mset_eq_imp_distinct_iff)
qed

lemma sum_sort_values: "sum_list (map snd (sort_values t)) = sum_list (map snd t)"
proof -
  have "mset (map snd (sort_values t)) = mset (map snd t)"
    by (simp add: mset_sort_values)
  then show ?thesis by (metis sum_mset_sum_list)
qed

lemma sorted_sort_values: "sorted_wrt (\<lambda>p q. snd q \<le> snd p) (sort_values t)"
proof -
  have "sorted (map (\<lambda>p. - int (snd p)) (sort_values t))"
    by (simp add: sort_values_def)
  then show ?thesis by (simp add: sorted_map sorted_wrt_iff_nth_less)
qed

lemma in_value_counts:
  "(v, c) \<in> set (value_counts col) \<longleftrightarrow> 0 < c \<and> c = count_list col (Some v)"
  by (simp add: value_counts_def set_sort_values in_count_keys count_dropna)

lemma distinct_value_counts: "distinct (map fst (value_counts col))"
  by (simp add: value_counts_def distinct_sort_values distinct_count_keys)

lemma sum_value_counts:
  "sum_list (map snd (value_counts col)) = length (filter (\<lambda>c. c \<noteq> None) col)"
  by (simp add: value_counts_def sum_sort_values sum_count_keys length_dropna)

lemma sorted_value_counts: "sorted_wrt (\<lambda>p q. snd q \<le> snd p) (value_counts col)"
  by (simp add: value_counts_def sorted_sort_values)

section \<open>The run on a file of records\<close>

lemma count_list_map: "count_list (map f xs) y = length (filter (\<lambda>x. f x = y) xs)"
  by (induction xs) auto

lemma getitem_count:
  assumes "getitem df ''EMP ID'' = Inr col"
  shows "count_list col (Some v) = occurrences df v"
proof -
  have col: "col = map (\<lambda>r. case r ''EMP ID'' of None \<Rightarrow> None | Some c \<Rightarrow> c) df"
    using assms by (auto simp: getitem_def split: if_splits)
  have "(case r ''EMP ID'' of None \<Rightarrow> None | Some c \<Rightarrow> c) = Some v \<longleftrightarrow> r ''EMP ID'' = Some (Some v)"
    for r :: "'a row"
    by (cases "r ''EMP ID''") auto
  then show ?thesis
    by (simp add: col count_list_map occurrences_def)
qed

lemma getitem_nonnull:
  assumes "getitem df ''EMP ID'' = Inr col"
  shows "length (filter (\<lambda>c. c \<noteq> None) col) = length (filter (\<lambda>r. \<exists>v. r ''EMP ID'' = Some (Some v)) df)"
proof -
  have col: "col = map (\<lambda>r. case r ''EMP ID'' of None \<Rightarrow> None | Some c \<Rightarrow> c) df"
    using assms by (auto simp: getitem_def split: if_splits)
  have "(case r ''EMP ID'' of None \<Rightarrow> None | Some c \<Rightarrow> c) \<noteq> None \<longleftrightarrow> (\<exists>v. r ''EMP ID'' = Some (Some v))"
    for r :: "'a row"
    by (cases "r ''EMP ID''") auto
  then show ?thesis
    by (simp add: col filter_map comp_def)
qed

lemma occurrences_getitem:
  assumes "0 < occurrences df v"
  shows "\<exists>col. getitem df ''EMP ID'' = Inr col"
proof -
  from assms have "filter (\<lambda>r. r ''EMP ID'' = Some (Some v)) df \<noteq> []"
    by (simp add: occurrences_def)
  then obtain r where "r \<in> set df" "r ''EMP ID'' = Some (Some v)"
    by (auto simp: filter_empty_conv)
  then have "list_ex (\<lambda>r. r ''EMP ID'' \<noteq> None) df"
    by (auto simp: list_ex_iff)
  then show ?thesis by (simp add: getitem_def)
qed

lemma run_records:
  assumes "files w file_name = Some (Records df)" and "getitem df ''EMP ID'' = Inr col"
  shows "find_duplicate_emp_ids w file_name =
           (let dups = filter (\<lambda>p. 1 < snd p) (value_counts col)
            in if dups = [] then (w\<lparr>stdout := stdout w @ [Line no_duplicates_msg]\<rparr>, Inr ())
               else (w\<lparr>stdout := stdout w @
                        [Line (header_msg (length dups)),
                         Markdown \<lparr>columns = [''EMP ID'', ''Count of Entries''], rows = dups\<rparr>]\<rparr>,
                     Inr ()))"
  using assms by (simp add: find_duplicate_emp_ids_def read_json_def print_def Let_def)

lemma in_dups:
  assumes "getitem df ''EMP ID'' = Inr col"
  shows "(v, c) \<in> set (filter (\<lambda>p. 1 < snd p) (value_counts col)) \<longleftrightarrow> 1 < c \<and> c = occurrences df v"
  using getitem_count [OF assms, of v] by (auto simp: in_value_counts)

lemma length_dups:
  assumes "getitem df ''EMP ID'' = Inr col"
  shows "length (filter (\<lambda>p. 1 < snd p) (value_counts col)) = card {u. 1 < occurrences df u}"
proof -
  let ?d = "filter (\<lambda>p. 1 < snd p) (value_counts col)"
  have d: "distinct (map fst ?d)"
    using distinct_value_counts [of col] by (simp add: distinct_map_filter)
  have "u \<in> fst ` set ?d \<longleftrightarrow> 1 < occurrences df u" for u
  proof
    assume "u \<in> fst ` set ?d"
    then obtain c where "(u, c) \<in> set ?d" by force
    then show "1 < occurrences df u"
      using in_dups [OF assms, of u c] by simp
  next
    assume "1 < occurrences df u"
    then have "(u, occurrences df u) \<in> set ?d"
      using in_dups [OF assms, of u "occurrences df u"] by simp
    then show "u \<in> fst ` set ?d" by force
  qed
  then have "set (map fst ?d) = {u. 1 < occurrences df u}"
    by (simp only: set_map) blast
  then have "card {u. 1 < occurrences df u} = length (map fst ?d)"
    using distinct_card [OF d] by simp
  then show ?thesis by simp
qed


lemma run_no_column:
  assumes "files w file_name = Some (Records df)" and "getitem df ''EMP ID'' = Inl e"
  shows "find_duplicate_emp_ids w file_name = (w, Inl e)"
  using assms by (simp add: find_duplicate_emp_ids_def read_json_def)

lemma getitem_cases:
  "getitem df name = Inl (KeyError name) \<and> (\<forall>r \<in> set df. r name = None)
   \<or> (\<exists>col. getitem df name = Inr col) \<and> (\<exists>r \<in> set df. r name \<noteq> None)"
  by (auto simp: getitem_def list_ex_iff)

lemma str_1: "str (Suc 0) = ''1''"
  by (simp add: str.simps)

lemma str_2: "str (Suc (Suc 0)) = ''2''"
  by (simp add: str.simps)

lemma sorted_dups:
  "sorted_wrt (\<lambda>p q. snd q \<le> snd p) (filter (\<lambda>p. 1 < snd p) (value_counts col))"
  using sorted_value_counts [of col] by (rule sorted_wrt_filter)

lemma run_shape:
  "\<exists>out. fst (find_duplicate_emp_ids w file_name) = w\<lparr>stdout := stdout w @ out\<rparr>
     \<and> (\<forall>t. Markdown t \<in> set out
           \<longrightarrow> (\<exists>col. rows t = filter (\<lambda>p. 1 < snd p) (value_counts col)))"
proof (cases "files w file_name")
  case None
  then have "fst (find_duplicate_emp_ids w file_name)
               = w\<lparr>stdout := stdout w @ [Line (not_found_msg file_name)]\<rparr>"
    by (simp add: find_duplicate_emp_ids_def read_json_def print_def)
  then show ?thesis by (intro exI [of _ "[Line (not_found_msg file_name)]"]) simp
next
  case (Some f)
  show ?thesis
  proof (cases f)
    case Malformed
    with Some have "fst (find_duplicate_emp_ids w file_name) = w\<lparr>stdout := stdout w @ []\<rparr>"
      by (simp add: find_duplicate_emp_ids_def read_json_def)
    then show ?thesis by (intro exI [of _ "[]"]) simp
  next
    case (Records df)
    with Some have f: "files w file_name = Some (Records df)" by simp
    show ?thesis
    proof (cases "getitem df ''EMP ID''")
      case (Inl e)
      have "fst (find_duplicate_emp_ids w file_name) = w\<lparr>stdout := stdout w @ []\<rparr>"
        using run_no_column [OF f Inl] by simp
      then show ?thesis by (intro exI [of _ "[]"]) simp
    next
      case (Inr col)
      let ?d = "filter (\<lambda>p. 1 < snd p) (value_counts col)"
      show ?thesis
      proof (cases "?d = []")
        case True
        then have "fst (find_duplicate_emp_ids w file_name)
                     = w\<lparr>stdout := stdout w @ [Line no_duplicates_msg]\<rparr>"
          using run_records [OF f Inr] by (simp add: Let_def)
        then show ?thesis by (intro exI [of _ "[Line no_duplicates_msg]"]) simp
      next
        case False
        let ?out = "[Line (header_msg (length ?d)),
                     Markdown \<lparr>columns = [''EMP ID'', ''Count of Entries''], rows = ?d\<rparr>]"
        have "fst (find_duplicate_emp_ids w file_name) = w\<lparr>stdout := stdout w @ ?out\<rparr>"
          using run_records [OF f Inr] False by (simp add: Let_def)
        moreover have "\<forall>t. Markdown t \<in> set ?out
            \<longrightarrow> (\<exists>c. rows t = filter (\<lambda>p. 1 < snd p) (value_counts c))"
          by auto
        ultimately show ?thesis by (intro exI [of _ ?out] conjI)
      qed
    qed
  qed
qed

section \<open>The report\<close>

text \<open>
  C1. When the file holds records and some identifier \<open>v\<close> is carried by \<open>k > 1\<close> of them,
  the run prints the header and then the table, and returns normally. The table has the row
  \<open>(v, k)\<close> and no other row for \<open>v\<close> (its identifiers are distinct). The header is the
  line \<^verbatim>\<open>--- EMP IDs with more than 1 entry (n IDs found) ---\<close> where \<^verbatim>\<open>n\<close> is, in decimal,
  the number of identifiers carried by more than one record. An identifier is a value: null
  is not one.
\<close>

theorem report_contains_duplicates:
  assumes "files w file_name = Some (Records df)"
    and "occurrences df v = k" and "1 < k"
  shows "\<exists>dups. find_duplicate_emp_ids w file_name =
            (w\<lparr>stdout := stdout w @
                 [Line (''--- EMP IDs with more than 1 entry (''
                        @ str (card {u. 1 < occurrences df u}) @ '' IDs found) ---''),
                  Markdown \<lparr>columns = [''EMP ID'', ''Count of Entries''], rows = dups\<rparr>]\<rparr>,
             Inr ())
          \<and> (v, k) \<in> set dups \<and> distinct (map fst dups)"
proof -
  from assms obtain col where col: "getitem df ''EMP ID'' = Inr col"
    using occurrences_getitem [of df v] by auto
  let ?d = "filter (\<lambda>p. 1 < snd p) (value_counts col)"
  have mem: "(v, k) \<in> set ?d"
    using in_dups [OF col, of v k] assms by simp
  have ne: "?d \<noteq> []"
  proof
    assume e: "?d = []"
    from mem show False unfolding e by simp
  qed
  have d: "distinct (map fst ?d)"
    using distinct_value_counts [of col] by (simp add: distinct_map_filter)
  have "find_duplicate_emp_ids w file_name =
          (w\<lparr>stdout := stdout w @
               [Line (header_msg (card {u. 1 < occurrences df u})),
                Markdown \<lparr>columns = [''EMP ID'', ''Count of Entries''], rows = ?d\<rparr>]\<rparr>,
           Inr ())"
    using run_records [OF assms(1) col] ne length_dups [OF col] by (simp add: Let_def)
  then have "find_duplicate_emp_ids w file_name =
          (w\<lparr>stdout := stdout w @
               [Line (''--- EMP IDs with more than 1 entry (''
                      @ str (card {u. 1 < occurrences df u}) @ '' IDs found) ---''),
                Markdown \<lparr>columns = [''EMP ID'', ''Count of Entries''], rows = ?d\<rparr>]\<rparr>,
           Inr ())"
    by (simp only: header_msg_def)
  with mem d show ?thesis by blast
qed

theorem report_contains_duplicates_witness:
  "files example_world ''membercsvjson.json'' = Some (Records example_records)
   \<and> occurrences example_records ''A'' = 2
   \<and> (\<exists>dups. main example_world =
          (example_world\<lparr>stdout :=
               [Line ''--- EMP IDs with more than 1 entry (1 IDs found) ---'',
                Markdown \<lparr>columns = [''EMP ID'', ''Count of Entries''], rows = dups\<rparr>]\<rparr>,
           Inr ())
        \<and> (''A'', 2) \<in> set dups \<and> distinct (map fst dups))"
proof -
  have f: "files example_world ''membercsvjson.json'' = Some (Records example_records)"
    by (simp add: example_world_def)
  have o: "occurrences example_records ''A'' = 2"
    by (simp add: example_records_def occurrences_def)
  have "{u. 1 < occurrences example_records u} = {''A''}"
    by (auto simp: example_records_def occurrences_def split: if_splits)
  then have n: "str (card {u. 1 < occurrences example_records u}) = ''1''"
    by (simp add: str_1)
  have s: "stdout example_world = []"
    by (simp add: example_world_def)
  have l: "(1::nat) < 2" by simp
  from report_contains_duplicates [OF f o l] obtain dups where
    r: "find_duplicate_emp_ids example_world ''membercsvjson.json'' =
          (example_world\<lparr>stdout := stdout example_world @
               [Line (''--- EMP IDs with more than 1 entry (''
                      @ str (card {u. 1 < occurrences example_records u}) @ '' IDs found) ---''),
                Markdown \<lparr>columns = [''EMP ID'', ''Count of Entries''], rows = dups\<rparr>]\<rparr>,
           Inr ())"
    and m: "(''A'', 2) \<in> set dups" and d: "distinct (map fst dups)"
    by blast
  have "main example_world =
          (example_world\<lparr>stdout :=
               [Line ''--- EMP IDs with more than 1 entry (1 IDs found) ---'',
                Markdown \<lparr>columns = [''EMP ID'', ''Count of Entries''], rows = dups\<rparr>]\<rparr>,
           Inr ())"
    unfolding main_def r n s by simp
  with f o m d show ?thesis by blast
qed

text \<open>
  C2, as amended. When the file holds records, at least one of which has the key
  \<^verbatim>\<open>EMP ID\<close>, and no identifier is carried by more than one record, the run prints
  exactly the line of no duplicates and returns normally: no header, no table.
\<close>

theorem no_duplicates_message:
  assumes "files w file_name = Some (Records df)"
    and "list_ex (\<lambda>r. r ''EMP ID'' \<noteq> None) df"
    and "\<forall>v. occurrences df v \<le> 1"
  shows "find_duplicate_emp_ids w file_name =
           (w\<lparr>stdout := stdout w @ [Line no_duplicates_msg]\<rparr>, Inr ())"
proof -
  from assms(2) obtain col where col: "getitem df ''EMP ID'' = Inr col"
    by (simp add: getitem_def)
  let ?d = "filter (\<lambda>p. 1 < snd p) (value_counts col)"
  have "?d = []"
  proof (rule ccontr)
    assume "?d \<noteq> []"
    then obtain v c where "(v, c) \<in> set ?d"
      by (cases ?d) (auto simp del: filter.simps set_filter)
    then have "1 < occurrences df v"
      using in_dups [OF col, of v c] by simp
    with assms(3) show False
      by (metis not_less)
  qed
  then show ?thesis
    using run_records [OF assms(1) col] by (simp add: Let_def)
qed

theorem no_duplicates_message_witness:
  "files unique_world ''membercsvjson.json'' = Some (Records unique_records)
   \<and> main unique_world = (unique_world\<lparr>stdout := [Line no_duplicates_msg]\<rparr>, Inr ())"
proof -
  have f: "files unique_world ''membercsvjson.json'' = Some (Records unique_records)"
    by (simp add: unique_world_def)
  have c: "list_ex (\<lambda>r. r ''EMP ID'' \<noteq> None) unique_records"
    by (simp add: unique_records_def)
  have u: "\<forall>v. occurrences unique_records v \<le> 1"
    by (auto simp: unique_records_def occurrences_def)
  have "stdout unique_world = []"
    by (simp add: unique_world_def)
  then show ?thesis
    using f no_duplicates_message [OF f c u] by (simp add: main_def)
qed

text \<open>
  C2 as stated fails on the empty array: no identifier appears twice there, yet the frame
  has no column \<^verbatim>\<open>EMP ID\<close>, so the run ends in a KeyError with nothing printed.
\<close>

theorem no_duplicates_message_counterexample:
  "files empty_world ''membercsvjson.json'' = Some (Records [])
   \<and> find_duplicate_emp_ids empty_world ''membercsvjson.json''
       = (empty_world, Inl (KeyError ''EMP ID''))"
  by (simp add: empty_world_def find_duplicate_emp_ids_def read_json_def getitem_def)

text \<open>
  C3, as amended. In the frequency table built from the column \<^verbatim>\<open>EMP ID\<close>, an
  identifier has an entry exactly when some record carries it, each identifier has one entry,
  and its count is the number of records that carry it. The sum of the counts is the number
  of records whose \<^verbatim>\<open>EMP ID\<close> is present and not null; it is the number of all records when
  every record has one.
\<close>

theorem frequency_table_counts:
  assumes "getitem df ''EMP ID'' = Inr col"
  shows "(\<forall>v c. (v, c) \<in> set (value_counts col) \<longleftrightarrow> 0 < c \<and> c = occurrences df v)
       \<and> distinct (map fst (value_counts col))
       \<and> sum_list (map snd (value_counts col))
           = length (filter (\<lambda>r. \<exists>v. r ''EMP ID'' = Some (Some v)) df)
       \<and> ((\<forall>r \<in> set df. \<exists>v. r ''EMP ID'' = Some (Some v))
            \<longrightarrow> sum_list (map snd (value_counts col)) = length df)"
proof -
  have a: "\<forall>v c. (v, c) \<in> set (value_counts col) \<longleftrightarrow> 0 < c \<and> c = occurrences df v"
    by (simp add: in_value_counts getitem_count [OF assms])
  have s: "sum_list (map snd (value_counts col))
             = length (filter (\<lambda>r. \<exists>v. r ''EMP ID'' = Some (Some v)) df)"
    by (simp only: sum_value_counts getitem_nonnull [OF assms])
  have "filter (\<lambda>r. \<exists>v. r ''EMP ID'' = Some (Some v)) df = df"
    if "\<forall>r \<in> set df. \<exists>v. r ''EMP ID'' = Some (Some v)"
    using that by (simp only: filter_id_conv)
  with s have t: "(\<forall>r \<in> set df. \<exists>v. r ''EMP ID'' = Some (Some v))
            \<longrightarrow> sum_list (map snd (value_counts col)) = length df"
    by simp
  from a distinct_value_counts [of col] s t show ?thesis
    by (intro conjI)
qed

theorem frequency_table_counts_witness:
  "getitem example_records ''EMP ID'' = Inr [Some ''A'', Some ''A'', Some ''B'']
   \<and> sum_list (map snd (value_counts [Some ''A'', Some ''A'', Some ''B''])) = length example_records
   \<and> (''A'', occurrences example_records ''A'') \<in> set (value_counts [Some ''A'', Some ''A'', Some ''B''])"
proof -
  have g: "getitem example_records ''EMP ID'' = Inr [Some ''A'', Some ''A'', Some ''B'']"
    by (simp add: example_records_def getitem_def)
  have e: "\<forall>r \<in> set example_records. \<exists>v. r ''EMP ID'' = Some (Some v)"
    by (simp add: example_records_def)
  have o: "0 < occurrences example_records ''A''"
    by (simp add: example_records_def occurrences_def)
  show ?thesis
    using g e o frequency_table_counts [OF g] by blast
qed

text \<open>
  C3 as stated fails when a record has null under \<^verbatim>\<open>EMP ID\<close>: the file has two records
  and the counts of the frequency table add up to one.
\<close>

theorem frequency_table_counts_counterexample:
  "getitem null_records ''EMP ID'' = Inr [Some ''A'', None]
   \<and> value_counts [Some ''A'', None] = [(''A'', 1)]
   \<and> sum_list (map snd (value_counts [Some ''A'', None :: string cell])) = 1
   \<and> length null_records = 2"
  by (simp add: null_records_def getitem_def value_counts_def sort_values_def count_keys_def)

text \<open>
  C4. When the path has no file, \<^verbatim>\<open>read_json\<close> raises FileNotFoundError, the function
  catches it, prints the one line naming the file and returns normally. The run ends in
  the handler, before the column is read: nothing else is printed, no table among it.
\<close>

theorem missing_file_reported:
  assumes "files w file_name = None"
  shows "find_duplicate_emp_ids w file_name =
           (w\<lparr>stdout := stdout w @ [Line (not_found_msg file_name)]\<rparr>, Inr ())"
  using assms by (simp add: find_duplicate_emp_ids_def read_json_def print_def)

theorem missing_file_reported_witness:
  "files missing_world ''membercsvjson.json'' = None
   \<and> main missing_world =
       (missing_world\<lparr>stdout :=
          [Line (''Error: File '' @ [CHR 0x27] @ ''membercsvjson.json'' @ [CHR 0x27] @ '' not found.'')]\<rparr>,
        Inr ())"
proof -
  have f: "files missing_world ''membercsvjson.json'' = None"
    by (simp add: missing_world_def)
  have "stdout missing_world = []"
    by (simp add: missing_world_def)
  then show ?thesis
    using f missing_file_reported [OF f] by (simp add: main_def not_found_msg_def)
qed

text \<open>
  C5. On a file of records with the column, the run returns normally, and what it reports
  is the frequency table restricted to the counts above one: the table printed has exactly
  those entries, in the order of the frequency table, and when there are none the run prints
  the line of no duplicates instead. An identifier carried by exactly one record is in no
  row of the report.
\<close>

theorem duplicates_are_restriction:
  assumes "files w file_name = Some (Records df)" and "getitem df ''EMP ID'' = Inr col"
  shows "\<exists>dups. dups = filter (\<lambda>p. 1 < snd p) (value_counts col)
       \<and> find_duplicate_emp_ids w file_name =
           (if dups = [] then (w\<lparr>stdout := stdout w @ [Line no_duplicates_msg]\<rparr>, Inr ())
            else (w\<lparr>stdout := stdout w @
                      [Line (header_msg (length dups)),
                       Markdown \<lparr>columns = [''EMP ID'', ''Count of Entries''], rows = dups\<rparr>]\<rparr>,
                  Inr ()))
       \<and> set dups = {p \<in> set (value_counts col). 1 < snd p}
       \<and> (\<forall>v. occurrences df v = 1 \<longrightarrow> v \<notin> fst ` set dups)
       \<and> snd (find_duplicate_emp_ids w file_name) = Inr ()"
proof -
  let ?d = "filter (\<lambda>p. 1 < snd p) (value_counts col)"
  have r: "find_duplicate_emp_ids w file_name =
           (if ?d = [] then (w\<lparr>stdout := stdout w @ [Line no_duplicates_msg]\<rparr>, Inr ())
            else (w\<lparr>stdout := stdout w @
                      [Line (header_msg (length ?d)),
                       Markdown \<lparr>columns = [''EMP ID'', ''Count of Entries''], rows = ?d\<rparr>]\<rparr>,
                  Inr ()))"
    using run_records [OF assms] by (simp only: Let_def)
  have s: "set ?d = {p \<in> set (value_counts col). 1 < snd p}"
    by (simp only: set_filter)
  have n: "\<forall>v. occurrences df v = 1 \<longrightarrow> v \<notin> fst ` set ?d"
  proof (intro allI impI notI)
    fix v
    assume one: "occurrences df v = 1" and "v \<in> fst ` set ?d"
    then obtain c where "(v, c) \<in> set ?d" by force
    then have "1 < occurrences df v"
      using in_dups [OF assms(2), of v c] by simp
    with one show False by simp
  qed
  have e: "snd (find_duplicate_emp_ids w file_name) = Inr ()"
    by (simp only: r snd_conv if_distrib [of snd] if_cancel)
  from r s n e show ?thesis by blast
qed

theorem duplicates_are_restriction_witness:
  "files example_world ''membercsvjson.json'' = Some (Records example_records)
   \<and> getitem example_records ''EMP ID'' = Inr [Some ''A'', Some ''A'', Some ''B'']
   \<and> occurrences example_records ''B'' = 1
   \<and> snd (main example_world) = Inr ()"
proof -
  have f: "files example_world ''membercsvjson.json'' = Some (Records example_records)"
    by (simp add: example_world_def)
  have g: "getitem example_records ''EMP ID'' = Inr [Some ''A'', Some ''A'', Some ''B'']"
    by (simp add: example_records_def getitem_def)
  have o: "occurrences example_records ''B'' = 1"
    by (simp add: example_records_def occurrences_def)
  show ?thesis
    using f g o duplicates_are_restriction [OF f g] by (simp only: main_def) blast
qed

text \<open>
  C6. On the three records \<^verbatim>\<open>A\<close>, \<^verbatim>\<open>A\<close>, \<^verbatim>\<open>B\<close> the run prints the header with the
  number 1 and then the table with the columns \<^verbatim>\<open>EMP ID\<close> and \<^verbatim>\<open>Count of Entries\<close> and
  the single row of \<^verbatim>\<open>A\<close> with count 2.
\<close>

theorem example_report:
  assumes "files w file_name = Some (Records example_records)"
  shows "find_duplicate_emp_ids w file_name =
           (w\<lparr>stdout := stdout w @
                [Line ''--- EMP IDs with more than 1 entry (1 IDs found) ---'',
                 Markdown \<lparr>columns = [''EMP ID'', ''Count of Entries''], rows = [(''A'', 2)]\<rparr>]\<rparr>,
            Inr ())"
proof -
  have g: "getitem example_records ''EMP ID'' = Inr [Some ''A'', Some ''A'', Some ''B'']"
    by (simp add: example_records_def getitem_def)
  have v: "value_counts [Some ''A'', Some ''A'', Some ''B''] = [(''A'', 2), (''B'', 1)]"
    by (simp add: value_counts_def sort_values_def count_keys_def)
  show ?thesis
    using run_records [OF assms g] by (simp add: v header_msg_def str_1)
qed

theorem example_report_witness:
  "files example_world ''membercsvjson.json'' = Some (Records example_records)
   \<and> main example_world =
       (example_world\<lparr>stdout :=
          [Line ''--- EMP IDs with more than 1 entry (1 IDs found) ---'',
           Markdown \<lparr>columns = [''EMP ID'', ''Count of Entries''], rows = [(''A'', 2)]\<rparr>]\<rparr>,
        Inr ())"
proof -
  have f: "files example_world ''membercsvjson.json'' = Some (Records example_records)"
    by (simp add: example_world_def)
  have "stdout example_world = []"
    by (simp add: example_world_def)
  then show ?thesis
    using f example_report [OF f] by (simp add: main_def)
qed

text \<open>
  C7. Whatever the run prints, a table among it has its rows in descending order of count:
  the count of a row is at most the count of the row before it.
\<close>

theorem rows_descending:
  assumes "stdout (fst (find_duplicate_emp_ids w file_name)) = stdout w @ out"
    and "Markdown t \<in> set out"
    and "Suc i < length (rows t)"
  shows "snd (rows t ! Suc i) \<le> snd (rows t ! i)"
proof -
  obtain out' where o: "fst (find_duplicate_emp_ids w file_name) = w\<lparr>stdout := stdout w @ out'\<rparr>"
    and t: "\<forall>t. Markdown t \<in> set out'
              \<longrightarrow> (\<exists>col. rows t = filter (\<lambda>p. 1 < snd p) (value_counts col))"
    using run_shape [of w file_name] by blast
  from o assms(1) have "out' = out" by simp
  with t assms(2) obtain col where "rows t = filter (\<lambda>p. 1 < snd p) (value_counts col)"
    by blast
  then have "sorted_wrt (\<lambda>p q. snd q \<le> snd p) (rows t)"
    by (simp only: sorted_dups)
  then show ?thesis
    using assms(3) by (simp add: sorted_wrt_iff_nth_less)
qed

theorem rows_descending_witness:
  "stdout (fst (main ranked_world)) =
     stdout ranked_world @
     [Line ''--- EMP IDs with more than 1 entry (2 IDs found) ---'',
      Markdown \<lparr>columns = [''EMP ID'', ''Count of Entries''], rows = [(''A'', 3), (''B'', 2)]\<rparr>]
   \<and> snd ([(''A'', 3), (''B'', 2 :: nat)] ! Suc 0) \<le> snd ([(''A'', 3), (''B'', 2 :: nat)] ! 0)"
proof -
  let ?t = "\<lparr>columns = [''EMP ID'', ''Count of Entries''], rows = [(''A'', 3), (''B'', 2 :: nat)]\<rparr>"
  let ?out = "[Line ''--- EMP IDs with more than 1 entry (2 IDs found) ---'', Markdown ?t]"
  have f: "files ranked_world ''membercsvjson.json'' = Some (Records ranked_records)"
    by (simp add: ranked_world_def)
  have g: "getitem ranked_records ''EMP ID''
             = Inr [Some ''B'', Some ''A'', Some ''A'', Some ''B'', Some ''A'']"
    by (simp add: ranked_records_def getitem_def)
  have v: "value_counts [Some ''B'', Some ''A'', Some ''A'', Some ''B'', Some ''A'']
             = [(''A'', 3), (''B'', 2)]"
    by (simp add: value_counts_def sort_values_def count_keys_def)
  have s: "stdout (fst (find_duplicate_emp_ids ranked_world ''membercsvjson.json''))
             = stdout ranked_world @ ?out"
    using run_records [OF f g] by (simp add: v header_msg_def str_2)
  have m: "Markdown ?t \<in> set ?out" by simp
  have l: "Suc 0 < length (rows ?t)" by simp
  show ?thesis
    using s rows_descending [OF s m l] by (simp add: main_def)
qed

text \<open>
  C8, as amended. A file that is not JSON ends the run in a ValueError, and a file of
  records none of which has the key \<^verbatim>\<open>EMP ID\<close> (the empty array among them) ends it in
  a KeyError; neither is caught and nothing is printed. When some record has the key, the
  records without it count as null and the run returns normally.
\<close>

theorem unexpected_failures_uncaught:
  "(files w file_name = Some Malformed
      \<longrightarrow> find_duplicate_emp_ids w file_name = (w, Inl ValueError))
   \<and> (files w file_name = Some (Records df) \<and> (\<forall>r \<in> set df. r ''EMP ID'' = None)
      \<longrightarrow> find_duplicate_emp_ids w file_name = (w, Inl (KeyError ''EMP ID'')))
   \<and> (files w file_name = Some (Records df) \<and> (\<exists>r \<in> set df. r ''EMP ID'' \<noteq> None)
      \<longrightarrow> snd (find_duplicate_emp_ids w file_name) = Inr ())"
proof (intro conjI impI)
  assume "files w file_name = Some Malformed"
  then show "find_duplicate_emp_ids w file_name = (w, Inl ValueError)"
    by (simp add: find_duplicate_emp_ids_def read_json_def)
next
  assume a: "files w file_name = Some (Records df) \<and> (\<forall>r \<in> set df. r ''EMP ID'' = None)"
  then have "getitem df ''EMP ID'' = Inl (KeyError ''EMP ID'')"
    by (simp add: getitem_def list_ex_iff)
  with a show "find_duplicate_emp_ids w file_name = (w, Inl (KeyError ''EMP ID''))"
    using run_no_column by blast
next
  assume a: "files w file_name = Some (Records df) \<and> (\<exists>r \<in> set df. r ''EMP ID'' \<noteq> None)"
  then obtain col where "getitem df ''EMP ID'' = Inr col"
    by (auto simp: getitem_def list_ex_iff)
  with a show "snd (find_duplicate_emp_ids w file_name) = Inr ()"
    using run_records [of w file_name df col] by (simp add: Let_def)
qed

theorem unexpected_failures_uncaught_witness:
  "files malformed_world ''membercsvjson.json'' = Some Malformed
   \<and> main malformed_world = (malformed_world, Inl ValueError)
   \<and> files empty_world ''membercsvjson.json'' = Some (Records [])
   \<and> main empty_world = (empty_world, Inl (KeyError ''EMP ID''))
   \<and> files example_world ''membercsvjson.json'' = Some (Records example_records)
   \<and> snd (main example_world) = Inr ()"
proof -
  have m: "files malformed_world ''membercsvjson.json'' = Some Malformed"
    by (simp add: malformed_world_def)
  have e: "files empty_world ''membercsvjson.json'' = Some (Records [])"
    by (simp add: empty_world_def)
  have x: "files example_world ''membercsvjson.json'' = Some (Records example_records)"
    by (simp add: example_world_def)
  have k: "\<exists>r \<in> set example_records. r ''EMP ID'' \<noteq> None"
    by (simp add: example_records_def)
  show ?thesis
    using m e x k
      unexpected_failures_uncaught [of malformed_world "''membercsvjson.json''" "[]"]
      unexpected_failures_uncaught [of empty_world "''membercsvjson.json''" "[]"]
      unexpected_failures_uncaught [of example_world "''membercsvjson.json''" example_records]
    by (simp add: main_def)
qed

text \<open>
  C8 as stated fails on a file where one record has the key and another does not: the
  second record counts as null, the run prints the line of no duplicates and returns.
\<close>

theorem unexpected_failures_uncaught_counterexample:
  "files partial_world ''membercsvjson.json'' = Some (Records partial_records)
   \<and> (partial_records ! 1) ''EMP ID'' = None
   \<and> find_duplicate_emp_ids partial_world ''membercsvjson.json''
       = (partial_world\<lparr>stdout := [Line no_duplicates_msg]\<rparr>, Inr ())"
  by (simp add: partial_world_def partial_records_def find_duplicate_emp_ids_def read_json_def
      getitem_def value_counts_def sort_values_def count_keys_def print_def)

text \<open>
  C9. After any run the state is the state before it with lines appended to the standard
  output: the files are the same, what had been printed is still there, and nothing else
  of the state differs.
\<close>

theorem only_stdout_written:
  "\<exists>out. fst (find_duplicate_emp_ids w file_name) = w\<lparr>stdout := stdout w @ out\<rparr>
        \<and> files (fst (find_duplicate_emp_ids w file_name)) = files w"
proof -
  obtain out where o: "fst (find_duplicate_emp_ids w file_name) = w\<lparr>stdout := stdout w @ out\<rparr>"
    using run_shape [of w file_name] by blast
  then have "files (fst (find_duplicate_emp_ids w file_name)) = files w"
    by simp
  with o show ?thesis by blast
qed

text \<open>
  C10. The records whose \<^verbatim>\<open>EMP ID\<close> is null or missing are left out of the frequency
  table: the table is the one of the column without its null cells, every identifier in it
  is carried by some record as a value, and when there is such a record the counts add up
  to less than the number of records.
\<close>

theorem null_ids_excluded:
  assumes "getitem df ''EMP ID'' = Inr col"
  shows "value_counts (filter (\<lambda>c. c \<noteq> None) col) = value_counts col
       \<and> (\<forall>v c. (v, c) \<in> set (value_counts col) \<longrightarrow> (\<exists>r \<in> set df. r ''EMP ID'' = Some (Some v)))
       \<and> ((\<exists>r \<in> set df. r ''EMP ID'' = None \<or> r ''EMP ID'' = Some None)
            \<longrightarrow> sum_list (map snd (value_counts col)) < length df)"
proof -
  have "dropna (filter (\<lambda>c. c \<noteq> None) col) = dropna col"
    by (induction col rule: dropna.induct) simp_all
  then have a: "value_counts (filter (\<lambda>c. c \<noteq> None) col) = value_counts col"
    by (simp only: value_counts_def)
  have b: "\<exists>r \<in> set df. r ''EMP ID'' = Some (Some v)" if "(v, c) \<in> set (value_counts col)" for v c
  proof -
    from that have "0 < occurrences df v"
      by (simp add: in_value_counts getitem_count [OF assms])
    then have "filter (\<lambda>r. r ''EMP ID'' = Some (Some v)) df \<noteq> []"
      by (simp add: occurrences_def)
    then obtain r where "r \<in> set df" "r ''EMP ID'' = Some (Some v)"
      by (auto simp: filter_empty_conv)
    then show ?thesis by blast
  qed
  have s: "sum_list (map snd (value_counts col))
             = length (filter (\<lambda>r. \<exists>v. r ''EMP ID'' = Some (Some v)) df)"
    using sum_value_counts [of col] getitem_nonnull [OF assms] by (rule trans)
  have c: "sum_list (map snd (value_counts col)) < length df"
    if e: "\<exists>r \<in> set df. r ''EMP ID'' = None \<or> r ''EMP ID'' = Some None"
  proof -
    from e obtain r where r: "r \<in> set df"
      and n: "r ''EMP ID'' = None \<or> r ''EMP ID'' = Some None"
      by (elim bexE)
    from n have m: "\<not> (\<exists>v. r ''EMP ID'' = Some (Some v))"
      by (elim disjE) simp_all
    show ?thesis
      unfolding s
      using length_filter_less [of r df "\<lambda>r. \<exists>v. r ''EMP ID'' = Some (Some v)", OF r m] .
  qed
  from a b c show ?thesis by blast
qed

theorem null_ids_excluded_witness:
  "getitem null_records ''EMP ID'' = Inr [Some ''A'', None]
   \<and> (null_records ! 1) ''EMP ID'' = Some None
   \<and> sum_list (map snd (value_counts [Some ''A'', None :: string cell])) < length null_records"
proof -
  have g: "getitem null_records ''EMP ID'' = Inr [Some ''A'', None]"
    by (simp add: null_records_def getitem_def)
  have n: "(null_records ! 1) ''EMP ID'' = Some None"
    by (simp add: null_records_def)
  have "null_records ! 1 \<in> set null_records"
    by (simp add: null_records_def)
  with n have e: "\<exists>r \<in> set null_records. r ''EMP ID'' = None \<or> r ''EMP ID'' = Some None"
    by blast
  have "sum_list (map snd (value_counts [Some ''A'', None :: string cell])) < length null_records"
    using null_ids_excluded [OF g] e by (elim conjE impE) assumption+
  with g n show ?thesis by (intro conjI)
qed

end
